theory Spec2Isabelle
  imports Complex_Main "HOL-Library.Sublist"
begin

section \<open>Python values, exceptions and string rendering\<close>

text \<open>
  The store client (\<^verbatim>\<open>charmcraft/commands/store/client.py\<close>) handles the values a
  JSON body parses to, raises and translates exceptions, and formats messages. This
  section models the part of Python these operations rest on.

  A \<open>string\<close> is the list of a Python \<^verbatim>\<open>str\<close>'s code points, restricted to code
  points below 256. A double is observed by the code only through its truth value and
  its rendering, so \<open>float64\<close> carries exactly these two observations.
\<close>

datatype float64 = Float64 (float_is_zero: bool) (float_repr: string)

datatype pyval =
    PNone
  | PBool bool
  | PInt int
  | PFloat float64
  | PStr string
  | PList "pyval list"
  | PDict "(string \<times> pyval) list"

text \<open>
  An exception is its class, the text \<^verbatim>\<open>str(e)\<close> gives, and the exception it was
  raised \<^verbatim>\<open>from\<close> (its \<^verbatim>\<open>__cause__\<close>). A class tag stands for the class and
  its subclasses, which is what an \<^verbatim>\<open>except\<close> clause matches.
\<close>

datatype exn_class =
    StoreClientError
  | CommandError
  | JSONDecodeError
  | KeyError
  | TypeError
  | ZeroDivisionError
  | OSError
  | OtherError string

datatype exn = Exn (exn_cls: exn_class) (exn_msg: string) (exn_cause: "exn option")

definition isinstance :: "exn \<Rightarrow> exn_class \<Rightarrow> bool" where
  "isinstance e c = (exn_cls e = c)"

subsection \<open>Rendering integers\<close>

definition digit_char :: "nat \<Rightarrow> char" where
  "digit_char d = ''0123456789abcdef'' ! d"

fun str_nat :: "nat \<Rightarrow> string" where
  "str_nat n = (if n < 10 then [digit_char n] else str_nat (n div 10) @ [digit_char (n mod 10)])"

declare str_nat.simps [simp del]

definition str_int :: "int \<Rightarrow> string" where
  "str_int i = (if i < 0 then ''-'' @ str_nat (nat (- i)) else str_nat (nat i))"

subsection \<open>Rendering strings: \<^verbatim>\<open>repr\<close> of a \<^verbatim>\<open>str\<close>\<close>

text \<open>
  CPython's \<^verbatim>\<open>unicode_repr\<close>: the quote is the double quote when the string has a
  single quote and no double quote, the single quote otherwise; the quote and the
  backslash are escaped, tab, newline and carriage return have their letter escapes,
  and every other non-printable code point below 256 is written \<^verbatim>\<open>\xhh\<close>.
\<close>

definition squote :: char where "squote = CHR 0x27"
definition dquote :: char where "dquote = CHR 0x22"
definition backslash :: char where "backslash = CHR 0x5C"

definition isprintable :: "char \<Rightarrow> bool" where
  "isprintable c =
     (let n = (of_char c :: nat)
      in (0x20 \<le> n \<and> n < 0x7F) \<or> (0xA1 \<le> n \<and> n \<noteq> 0xAD))"

definition repr_quote :: "string \<Rightarrow> char" where
  "repr_quote s = (if squote \<in> set s \<and> dquote \<notin> set s then dquote else squote)"

definition repr_char :: "char \<Rightarrow> char \<Rightarrow> string" where
  "repr_char q c =
     (if c = q \<or> c = backslash then [backslash, c]
      else if c = CHR 0x09 then [backslash, CHR ''t'']
      else if c = CHR 0x0A then [backslash, CHR ''n'']
      else if c = CHR 0x0D then [backslash, CHR ''r'']
      else if \<not> isprintable c then
        [backslash, CHR ''x'', digit_char (of_char c div 16), digit_char (of_char c mod 16)]
      else [c])"

definition repr_str :: "string \<Rightarrow> string" where
  "repr_str s = (let q = repr_quote s in [q] @ concat (map (repr_char q) s) @ [q])"

subsection \<open>\<^verbatim>\<open>repr\<close> and \<^verbatim>\<open>str\<close> of a JSON value\<close>

fun join :: "string \<Rightarrow> string list \<Rightarrow> string" where
  "join sep [] = []"
| "join sep [x] = x"
| "join sep (x # y # ys) = x @ sep @ join sep (y # ys)"

fun py_repr :: "pyval \<Rightarrow> string" where
  "py_repr PNone = ''None''"
| "py_repr (PBool b) = (if b then ''True'' else ''False'')"
| "py_repr (PInt i) = str_int i"
| "py_repr (PFloat f) = float_repr f"
| "py_repr (PStr s) = repr_str s"
| "py_repr (PList xs) = ''['' @ join '', '' (map py_repr xs) @ '']''"
| "py_repr (PDict kvs) =
     ''{'' @ join '', '' (map (\<lambda>kv. repr_str (fst kv) @ '': '' @ py_repr (snd kv)) kvs) @ ''}''"

text \<open>\<^verbatim>\<open>str(x)\<close>, which \<^verbatim>\<open>"{}".format(x)\<close> and \<^verbatim>\<open>"%s" % x\<close> use: a string is
  itself, every other JSON value is its \<^verbatim>\<open>repr\<close>.\<close>

fun py_str :: "pyval \<Rightarrow> string" where
  "py_str (PStr s) = s"
| "py_str v = py_repr v"

subsection \<open>Truth value and subscription\<close>

fun truthy :: "pyval \<Rightarrow> bool" where
  "truthy PNone = False"
| "truthy (PBool b) = b"
| "truthy (PInt i) = (i \<noteq> 0)"
| "truthy (PFloat f) = (\<not> float_is_zero f)"
| "truthy (PStr s) = (s \<noteq> [])"
| "truthy (PList xs) = (xs \<noteq> [])"
| "truthy (PDict kvs) = (kvs \<noteq> [])"

text \<open>\<^verbatim>\<open>obj[key]\<close> with a string key: a dict looks the key up and raises
  \<^verbatim>\<open>KeyError\<close> when it is absent; no other JSON value accepts a string subscript.\<close>

fun getitem :: "pyval \<Rightarrow> string \<Rightarrow> exn + pyval" where
  "getitem (PDict kvs) k =
     (case map_of kvs k of
        None \<Rightarrow> Inl (Exn KeyError (repr_str k) None)
      | Some v \<Rightarrow> Inr v)"
| "getitem (PList xs) k =
     Inl (Exn TypeError ''list indices must be integers or slices, not str'' None)"
| "getitem (PStr s) k = Inl (Exn TypeError ''string indices must be integers'' None)"
| "getitem v k = Inl (Exn TypeError ''object is not subscriptable'' None)"

section \<open>Collaborators and observable state\<close>

text \<open>
  The module reaches the outside through a few collaborators: the process environment,
  the platform facts, \<^verbatim>\<open>appdirs\<close>, the file system, the multipart encoder of
  \<^verbatim>\<open>requests_toolbelt\<close>, and the two HTTP layers of \<^verbatim>\<open>craft_store\<close>. Their
  code is not part of the module, so each is a field of the record \<open>world\<close> and every
  theorem holds for any behaviour of theirs.
\<close>

record os_platform =
  system :: string
  release :: string
  machine :: string

record path =
  path_str :: string   \<comment> \<open>\<^verbatim>\<open>str(filepath)\<close>\<close>
  path_name :: string  \<comment> \<open>\<^verbatim>\<open>filepath.name\<close>\<close>

record response =
  status_code :: int
  json :: "exn + pyval"  \<comment> \<open>what \<^verbatim>\<open>response.json()\<close> raises or returns\<close>

text \<open>One part of a multipart body: \<^verbatim>\<open>name: (filename, file object, content type)\<close>.\<close>

record field =
  field_name :: string
  file_name :: string
  file_handle :: nat
  field_content_type :: string

record encoder =
  enc_fields :: "field list"
  enc_content_type :: string
  enc_len :: nat

text \<open>\<^verbatim>\<open>MultipartEncoderMonitor\<close>: it wraps the encoder, copies its length and counts
  the bytes read so far.\<close>

record monitor =
  mon_encoder :: encoder
  bytes_read :: nat
  len :: nat

definition MultipartEncoderMonitor :: "encoder \<Rightarrow> monitor" where
  "MultipartEncoderMonitor e = \<lparr>mon_encoder = e, bytes_read = 0, len = enc_len e\<rparr>"

definition content_type :: "monitor \<Rightarrow> string" where
  "content_type m = enc_content_type (mon_encoder m)"

record http_request =
  req_method :: string
  req_url :: string
  req_headers :: "(string \<times> string) list"
  req_user_agent :: string
  req_data :: monitor

text \<open>The \<^verbatim>\<open>Client\<close> object: the arguments its constructor hands to
  \<^verbatim>\<open>craft_store.StoreClient.__init__\<close>, and its own attribute
  \<^verbatim>\<open>storage_base_url\<close>.\<close>

record client =
  base_url :: string
  config_path :: string
  endpoints :: string
  user_agent :: string
  storage_base_url :: string

record world =
  environ :: "(string \<times> string) list"
    \<comment> \<open>\<^verbatim>\<open>os.environ\<close>\<close>
  charmcraft_version :: string
    \<comment> \<open>\<^verbatim>\<open>charmcraft.__version__\<close>\<close>
  get_os_platform :: os_platform
    \<comment> \<open>\<^verbatim>\<open>utils.get_os_platform()\<close>\<close>
  python_version :: string
    \<comment> \<open>\<^verbatim>\<open>platform.python_version()\<close>\<close>
  user_config_dir :: "string \<Rightarrow> string"
    \<comment> \<open>\<^verbatim>\<open>appdirs.user_config_dir\<close>\<close>
  StoreClient_request :: "client \<Rightarrow> string \<Rightarrow> string \<Rightarrow> exn + response"
    \<comment> \<open>\<^verbatim>\<open>craft_store.StoreClient.request(method, url)\<close> on this client\<close>
  path_open :: "path \<Rightarrow> exn + unit"
    \<comment> \<open>whether \<^verbatim>\<open>filepath.open("rb")\<close> raises\<close>
  MultipartEncoder :: "field list \<Rightarrow> encoder"
    \<comment> \<open>\<^verbatim>\<open>requests_toolbelt.MultipartEncoder(fields=...)\<close>\<close>
  HTTPClient_post :: "http_request \<Rightarrow> nat list \<times> (exn + response)"
    \<comment> \<open>\<^verbatim>\<open>craft_store.HTTPClient.post\<close>: the sizes of the chunks it reads from the
        body, then the error it raises or the response it returns\<close>

text \<open>
  What the operations change: file handles (by descriptor), the debug log, the progress
  lines printed to standard output, and the HTTP requests sent to the storage. A progress
  line \<^verbatim>\<open>"Uploading... {:.2f}%\r"\<close> is recorded by the value it renders.
\<close>

datatype handle_status = Open | Closed

datatype printed = Uploading rat

record io_state =
  handles :: "nat \<Rightarrow> handle_status option"
  next_fd :: nat
  debug_log :: "string list"
  stdout :: "printed list"
  posted :: "http_request list"

definition logger_debug :: "string \<Rightarrow> io_state \<Rightarrow> io_state" where
  "logger_debug msg s = s\<lparr>debug_log := debug_log s @ [msg]\<rparr>"

section \<open>The user agent\<close>

definition TESTING_ENV_PREFIXES :: "string list" where
  "TESTING_ENV_PREFIXES = [''TRAVIS'', ''AUTOPKGTEST_TMP'']"

definition startswith :: "string \<Rightarrow> string \<Rightarrow> bool" where
  "startswith s p = (take (length p) s = p)"

fun py_any :: "bool list \<Rightarrow> bool" where
  "py_any [] = False"
| "py_any (b # bs) = (b \<or> py_any bs)"

definition build_user_agent :: "world \<Rightarrow> string" where
  "build_user_agent w =
     (let testing =
            (if py_any [startswith key pfx.
                        pfx \<leftarrow> TESTING_ENV_PREFIXES, key \<leftarrow> map fst (environ w)]
             then '' (testing) '' else '' '');
          p = get_os_platform w;
          os_platform = system p @ ''/'' @ release p @ '' ('' @ machine p @ '')''
      in ''charmcraft/'' @ charmcraft_version w @ testing @ os_platform
           @ '' python/'' @ python_version w)"

section \<open>The client\<close>

text \<open>\<^verbatim>\<open>s.rstrip(chars)\<close>: drop from the end of \<open>s\<close> while the last character is one
  of \<open>chars\<close>.\<close>

definition rstrip :: "string \<Rightarrow> string \<Rightarrow> string" where
  "rstrip s chars = rev (dropWhile (\<lambda>c. c \<in> set chars) (rev s))"

definition Client_init :: "world \<Rightarrow> string \<Rightarrow> string \<Rightarrow> client" where
  "Client_init w api_base_url storage_base_url' =
     (let config_path' = user_config_dir w ''charmcraft.creds'';
          api_base_url = rstrip api_base_url ''/''
      in \<lparr>base_url = api_base_url,
          config_path = config_path',
          endpoints = ''CHARMHUB'',
          user_agent = build_user_agent w,
          storage_base_url = rstrip storage_base_url' ''/''\<rparr>)"

definition request :: "world \<Rightarrow> client \<Rightarrow> string \<Rightarrow> string \<Rightarrow> exn + response" where
  "request w self method url =
     (case StoreClient_request w self method url of
        Inr r \<Rightarrow> Inr r
      | Inl store_error \<Rightarrow>
          if isinstance store_error StoreClientError
          then Inl (Exn CommandError (exn_msg store_error) (Some store_error))
          else Inl store_error)"

definition request_json :: "world \<Rightarrow> client \<Rightarrow> string \<Rightarrow> string \<Rightarrow> exn + pyval" where
  "request_json w self method url =
     (case request w self method url of
        Inl e \<Rightarrow> Inl e
      | Inr response \<Rightarrow>
          (case json response of
             Inr v \<Rightarrow> Inr v
           | Inl json_error \<Rightarrow>
               if isinstance json_error JSONDecodeError
               then Inl (Exn CommandError
                      (''Could not retrieve json response ('' @ str_int (status_code response)
                         @ '' from request'')
                      (Some json_error))
               else Inl json_error))"

section \<open>Pushing a file to the storage\<close>

text \<open>
  Python's \<^verbatim>\<open>a / b\<close> on integers raises \<^verbatim>\<open>ZeroDivisionError\<close> when \<open>b\<close> is zero
  and otherwise returns the double nearest to the exact quotient. The model keeps the
  exact quotient: where it is \<open>100\<close> the double is \<open>100.0\<close>, and where it is at most
  \<open>100\<close> so is the double.
\<close>

definition truediv :: "nat \<Rightarrow> nat \<Rightarrow> exn + rat" where
  "truediv a b =
     (if b = 0 then Inl (Exn ZeroDivisionError ''division by zero'' None)
      else Inr (of_nat a / of_nat b))"

text \<open>The callback \<^verbatim>\<open>_progress\<close> defined inside \<^verbatim>\<open>push_file\<close>.\<close>

definition progress :: "monitor \<Rightarrow> io_state \<Rightarrow> (exn + unit) \<times> io_state" where
  "progress m s =
     (if bytes_read m \<le> len m then
        (case truediv (100 * bytes_read m) (len m) of
           Inl e \<Rightarrow> (Inl e, s)
         | Inr p \<Rightarrow> (Inr (), s\<lparr>stdout := stdout s @ [Uploading p]\<rparr>))
      else (Inr (), s))"

text \<open>
  The monitor's \<^verbatim>\<open>read\<close>: a chunk of \<open>n\<close> bytes leaves the encoder, the counter
  advances by \<open>n\<close> and the callback runs on the monitor. \<open>stream\<close> is the sequence of
  reads the HTTP layer makes while it sends the body; an exception of the callback ends it.
\<close>

definition monitor_read :: "nat \<Rightarrow> monitor \<Rightarrow> io_state \<Rightarrow> (exn + monitor) \<times> io_state" where
  "monitor_read n m s =
     (let m' = m\<lparr>bytes_read := bytes_read m + n\<rparr>
      in case progress m' s of
           (Inl e, s') \<Rightarrow> (Inl e, s')
         | (Inr _, s') \<Rightarrow> (Inr m', s'))"

fun stream :: "nat list \<Rightarrow> monitor \<Rightarrow> io_state \<Rightarrow> (exn + monitor) \<times> io_state" where
  "stream [] m s = (Inr m, s)"
| "stream (n # ns) m s =
     (case monitor_read n m s of
        (Inl e, s') \<Rightarrow> (Inl e, s')
      | (Inr m', s') \<Rightarrow> stream ns m' s')"

definition storage_push :: "world \<Rightarrow> monitor \<Rightarrow> string \<Rightarrow> io_state \<Rightarrow> (exn + pyval) \<times> io_state" where
  "storage_push w monitor storage_base_url' s =
     (let url = storage_base_url' @ ''/unscanned-upload/'';
          headers = [(''Content-Type'', content_type monitor),
                     (''Accept'', ''application/json'')];
          req = \<lparr>req_method = ''POST'', req_url = url, req_headers = headers,
                 req_user_agent = build_user_agent w, req_data = monitor\<rparr>;
          s1 = s\<lparr>posted := posted s @ [req]\<rparr>;
          (chunks, outcome) = HTTPClient_post w req
      in case stream chunks monitor s1 of
           (Inl e, s2) \<Rightarrow> (Inl e, s2)
         | (Inr _, s2) \<Rightarrow>
             (case outcome of
                Inl e \<Rightarrow> (Inl e, s2)
              | Inr response \<Rightarrow> (json response, s2)))"

text \<open>
  \<^verbatim>\<open>with filepath.open("rb") as fh: body\<close>. When the open raises, nothing was
  acquired and the error propagates. Otherwise the body runs on the new handle and, whether
  it returns or raises, the handle is closed before the outcome is passed on.
\<close>

definition with_open ::
  "world \<Rightarrow> path \<Rightarrow> (nat \<Rightarrow> io_state \<Rightarrow> (exn + 'a) \<times> io_state) \<Rightarrow> io_state
     \<Rightarrow> (exn + 'a) \<times> io_state" where
  "with_open w filepath body s =
     (case path_open w filepath of
        Inl e \<Rightarrow> (Inl e, s)
      | Inr _ \<Rightarrow>
          (let fh = next_fd s;
               s1 = s\<lparr>handles := (handles s)(fh \<mapsto> Open), next_fd := fh + 1\<rparr>;
               (r, s2) = body fh s1
           in (r, s2\<lparr>handles := (handles s2)(fh \<mapsto> Closed)\<rparr>)))"

text \<open>The \<^verbatim>\<open>with\<close> block of \<^verbatim>\<open>push_file\<close> (lines 117 to 124): it yields what
  \<^verbatim>\<open>_storage_push\<close> returned, the parsed response.\<close>

definition push_file_upload :: "world \<Rightarrow> client \<Rightarrow> path \<Rightarrow> io_state \<Rightarrow> (exn + pyval) \<times> io_state" where
  "push_file_upload w self filepath =
     with_open w filepath (\<lambda>fh s.
       let encoder = MultipartEncoder w
                       [\<lparr>field_name = ''binary'', file_name = path_name filepath,
                          file_handle = fh, field_content_type = ''application/octet-stream''\<rparr>];
           monitor = MultipartEncoderMonitor encoder
       in storage_push w monitor (storage_base_url self) s)"

definition push_file :: "world \<Rightarrow> client \<Rightarrow> path \<Rightarrow> io_state \<Rightarrow> (exn + pyval) \<times> io_state" where
  "push_file w self filepath s =
     (let s0 = logger_debug (''Starting to push '' @ repr_str (path_str filepath)) s
      in case push_file_upload w self filepath s0 of
           (Inl e, s1) \<Rightarrow> (Inl e, s1)
         | (Inr response, s1) \<Rightarrow>
             (let result = response
              in case getitem result ''successful'' of
                   Inl e \<Rightarrow> (Inl e, s1)
                 | Inr successful \<Rightarrow>
                     if \<not> truthy successful then
                       (Inl (Exn CommandError
                              (''Server error while pushing file: '' @ py_str result) None), s1)
                     else
                       (case getitem result ''upload_id'' of
                          Inl e \<Rightarrow> (Inl e, s1)
                        | Inr upload_id \<Rightarrow>
                            (Inr upload_id,
                             logger_debug (''Uploading bytes ended, id '' @ py_str upload_id) s1))))"

section \<open>A concrete run\<close>

text \<open>
  Worlds and a state on which every operation can be evaluated: a CI machine, a
  storage that reads the body in two chunks and answers with the response \<open>r\<close>, and
  a session whose store replies with a body that is not JSON.
\<close>

definition demo_response :: response where
  "demo_response =
     \<lparr>status_code = 200,
      json = Inr (PDict [(''successful'', PBool True), (''upload_id'', PStr ''abc123'')])\<rparr>"

definition demo_not_json :: response where
  "demo_not_json =
     \<lparr>status_code = 502,
      json = Inl (Exn JSONDecodeError ''Expecting value: line 1 column 1 (char 0)'' None)\<rparr>"

definition demo_storage :: "response \<Rightarrow> world" where
  "demo_storage r =
     \<lparr>environ = [(''HOME'', ''/home/ci''), (''TRAVIS_BRANCH'', ''main'')],
      charmcraft_version = ''1.5.0'',
      get_os_platform = \<lparr>system = ''ubuntu'', release = ''20.04'', machine = ''x86_64''\<rparr>,
      python_version = ''3.8.10'',
      user_config_dir = (\<lambda>app. ''/home/ci/.config/'' @ app),
      StoreClient_request = (\<lambda>self method url. Inr demo_not_json),
      path_open = (\<lambda>p. Inr ()),
      MultipartEncoder =
        (\<lambda>fields. \<lparr>enc_fields = fields,
                    enc_content_type = ''multipart/form-data; boundary=b0'',
                    enc_len = 300\<rparr>),
      HTTPClient_post = (\<lambda>req. ([200, 100], Inr r))\<rparr>"

definition demo_world :: world where
  "demo_world = demo_storage demo_response"

definition demo_state :: io_state where
  "demo_state =
     \<lparr>handles = Map.empty, next_fd = 3, debug_log = [], stdout = [], posted = []\<rparr>"

definition demo_client :: client where
  "demo_client =
     Client_init demo_world ''https://api.charmhub.io/'' ''https://storage.snapcraftcontent.com//''"

definition demo_path :: path where
  "demo_path = \<lparr>path_str = ''/tmp/build/my.charm'', path_name = ''my.charm''\<rparr>"

section \<open>Properties of \<^verbatim>\<open>push_file\<close>: the outcome\<close>

text \<open>
  The debug log is write-only: what the upload yields does not depend on it. So the
  outcome of \<open>push_file\<close> is a function of what its \<^verbatim>\<open>with\<close> block yields on the
  state \<open>push_file\<close> was called in.
\<close>

lemma progress_log:
  "progress m (logger_debug msg s) = (fst (progress m s), logger_debug msg (snd (progress m s)))"
  by (simp add: progress_def logger_debug_def split: sum.splits)

lemma monitor_read_log:
  "monitor_read n m (logger_debug msg s)
     = (fst (monitor_read n m s), logger_debug msg (snd (monitor_read n m s)))"
  by (simp add: monitor_read_def progress_log Let_def split: sum.splits prod.splits)

lemma stream_log:
  "stream ns m (logger_debug msg s)
     = (fst (stream ns m s), logger_debug msg (snd (stream ns m s)))"
proof (induction ns arbitrary: m s)
  case Nil
  show ?case by simp
next
  case (Cons n ns)
  show ?case
  proof (cases "monitor_read n m s")
    case (Pair r s')
    then have l: "monitor_read n m (logger_debug msg s) = (r, logger_debug msg s')"
      by (simp add: monitor_read_log)
    show ?thesis
    proof (cases r)
      case (Inl e)
      with Pair l show ?thesis by simp
    next
      case (Inr m')
      with Pair l Cons.IH [of m' s'] show ?thesis by simp
    qed
  qed
qed

lemma storage_push_log:
  "fst (storage_push w m u (logger_debug msg s)) = fst (storage_push w m u s)"
proof -
  have p: "s\<lparr>debug_log := debug_log s @ [msg], posted := posted s @ [r]\<rparr>
             = logger_debug msg (s\<lparr>posted := posted s @ [r]\<rparr>)" for r
    by (simp add: logger_debug_def)
  show ?thesis
    unfolding storage_push_def Let_def
    apply (simp add: logger_debug_def [of msg s] p split: prod.splits)
    apply (auto simp add: stream_log split: sum.splits prod.splits)
    done
qed

lemma with_open_fst:
  "fst (with_open w filepath body s) =
     (case path_open w filepath of
        Inl e \<Rightarrow> Inl e
      | Inr _ \<Rightarrow> fst (body (next_fd s)
                       (s\<lparr>handles := (handles s)(next_fd s \<mapsto> Open), next_fd := next_fd s + 1\<rparr>)))"
  by (simp add: with_open_def Let_def split: sum.splits prod.splits)

lemma push_file_upload_log:
  "fst (push_file_upload w self filepath (logger_debug msg s))
     = fst (push_file_upload w self filepath s)"
proof -
  have n: "next_fd (logger_debug msg s) = next_fd s"
    by (simp add: logger_debug_def)
  have p: "(logger_debug msg s)\<lparr>handles := (handles (logger_debug msg s))(fh \<mapsto> Open), next_fd := k\<rparr>
             = logger_debug msg (s\<lparr>handles := (handles s)(fh \<mapsto> Open), next_fd := k\<rparr>)" for fh k
    by (simp add: logger_debug_def)
  show ?thesis
    unfolding push_file_upload_def with_open_fst n p Let_def storage_push_log ..
qed

lemma push_file_result:
  assumes "fst (push_file_upload w self filepath s) = Inr result"
  shows "fst (push_file w self filepath s) =
           (case getitem result ''successful'' of
              Inl e \<Rightarrow> Inl e
            | Inr successful \<Rightarrow>
                if \<not> truthy successful then
                  Inl (Exn CommandError (''Server error while pushing file: '' @ py_str result) None)
                else getitem result ''upload_id'')"
proof -
  let ?s0 = "logger_debug (''Starting to push '' @ repr_str (path_str filepath)) s"
  from assms have "fst (push_file_upload w self filepath ?s0) = Inr result"
    by (simp add: push_file_upload_log)
  then obtain s1 where "push_file_upload w self filepath ?s0 = (Inr result, s1)"
    by (cases "push_file_upload w self filepath ?s0") simp
  then show ?thesis
    by (simp add: push_file_def Let_def split: sum.splits)
qed

lemma demo_upload:
  "fst (push_file_upload (demo_storage r) self demo_path demo_state) = json r"
  by (simp add: push_file_upload_def with_open_def storage_push_def demo_storage_def
      demo_state_def demo_path_def MultipartEncoderMonitor_def monitor_read_def progress_def
      truediv_def Let_def)

text \<open>
  Claim C1. Whenever the parsed response of the storage is a mapping whose field
  \<^verbatim>\<open>successful\<close> is \<^verbatim>\<open>True\<close> and that has a field \<^verbatim>\<open>upload_id\<close>,
  \<^verbatim>\<open>push_file\<close> returns exactly the value of \<^verbatim>\<open>upload_id\<close>. The run below is the
  response \<^verbatim>\<open>{"successful": true, "upload_id": "abc123"}\<close>, on which it returns
  \<^verbatim>\<open>"abc123"\<close>.
\<close>

theorem push_file_returns_upload_id:
  assumes "fst (push_file_upload w self filepath s) = Inr (PDict d)"
    and "map_of d ''successful'' = Some (PBool True)"
    and "map_of d ''upload_id'' = Some upload_id"
  shows "fst (push_file w self filepath s) = Inr upload_id"
  using push_file_result [OF assms(1)] assms(2,3) by simp

theorem push_file_returns_upload_id_witness:
  "fst (push_file_upload (demo_storage demo_response) demo_client demo_path demo_state)
     = Inr (PDict [(''successful'', PBool True), (''upload_id'', PStr ''abc123'')])
   \<and> map_of [(''successful'', PBool True), (''upload_id'', PStr ''abc123'')] ''successful''
       = Some (PBool True)
   \<and> map_of [(''successful'', PBool True), (''upload_id'', PStr ''abc123'')] ''upload_id''
       = Some (PStr ''abc123'')
   \<and> fst (push_file (demo_storage demo_response) demo_client demo_path demo_state)
       = Inr (PStr ''abc123'')"
proof -
  have u: "fst (push_file_upload (demo_storage demo_response) demo_client demo_path demo_state)
             = Inr (PDict [(''successful'', PBool True), (''upload_id'', PStr ''abc123'')])"
    by (simp add: demo_upload demo_response_def)
  show ?thesis
    using u push_file_returns_upload_id [OF u, of "PStr ''abc123''"] by simp
qed

text \<open>
  Claim C2. Whenever the parsed response of the storage has its field
  \<^verbatim>\<open>successful\<close> equal to \<^verbatim>\<open>False\<close>, \<^verbatim>\<open>push_file\<close> fails with a
  \<^verbatim>\<open>CommandError\<close> whose message contains the whole payload, as Python renders it,
  and returns no upload id.
\<close>

theorem push_file_rejected:
  assumes "fst (push_file_upload w self filepath s) = Inr (PDict d)"
    and "map_of d ''successful'' = Some (PBool False)"
  shows "fst (push_file w self filepath s)
           = Inl (Exn CommandError (''Server error while pushing file: '' @ py_repr (PDict d)) None)
         \<and> (case fst (push_file w self filepath s) of
               Inl e \<Rightarrow> isinstance e CommandError \<and> sublist (py_repr (PDict d)) (exn_msg e)
             | Inr upload_id \<Rightarrow> False)"
proof -
  let ?msg = "''Server error while pushing file: '' @ py_repr (PDict d)"
  have r: "fst (push_file w self filepath s) = Inl (Exn CommandError ?msg None)"
    using push_file_result [OF assms(1)] assms(2) by (simp del: py_repr.simps)
  have c: "sublist (py_repr (PDict d)) ?msg"
    by (rule sublist_append_leftI)
  from r c show ?thesis
    by (simp only: sum.case exn.sel isinstance_def simp_thms)
qed

lemma demo_rejected_repr:
  "py_repr (PDict [(''successful'', PBool False), (''errors'', PList [PStr ''too big''])])
     = ''{'successful': False, 'errors': ['too big']}''"
  by code_simp

theorem push_file_rejected_witness:
  "fst (push_file_upload
          (demo_storage \<lparr>status_code = 200,
             json = Inr (PDict [(''successful'', PBool False), (''errors'', PList [PStr ''too big''])])\<rparr>)
          demo_client demo_path demo_state)
     = Inr (PDict [(''successful'', PBool False), (''errors'', PList [PStr ''too big''])])
   \<and> map_of [(''successful'', PBool False), (''errors'', PList [PStr ''too big''])] ''successful''
       = Some (PBool False)
   \<and> fst (push_file
          (demo_storage \<lparr>status_code = 200,
             json = Inr (PDict [(''successful'', PBool False), (''errors'', PList [PStr ''too big''])])\<rparr>)
          demo_client demo_path demo_state)
     = Inl (Exn CommandError
         ''Server error while pushing file: {'successful': False, 'errors': ['too big']}'' None)"
proof -
  let ?d = "[(''successful'', PBool False), (''errors'', PList [PStr ''too big''])]"
  let ?w = "demo_storage \<lparr>status_code = 200, json = Inr (PDict ?d)\<rparr>"
  have u: "fst (push_file_upload ?w demo_client demo_path demo_state) = Inr (PDict ?d)"
    by (simp add: demo_upload)
  have k: "map_of ?d ''successful'' = Some (PBool False)"
    by simp
  show ?thesis
    using u k push_file_rejected [OF u k] by (simp only: demo_rejected_repr) simp
qed

text \<open>
  Claim C10. When the parsed response is a mapping without the key \<^verbatim>\<open>successful\<close>,
  or with \<^verbatim>\<open>successful\<close> true and without the key \<^verbatim>\<open>upload_id\<close>,
  \<^verbatim>\<open>push_file\<close> fails with the \<^verbatim>\<open>KeyError\<close> of the lookup, which is not a
  \<^verbatim>\<open>CommandError\<close>.
\<close>

theorem push_file_missing_key:
  assumes "fst (push_file_upload w self filepath s) = Inr (PDict d)"
  shows "(map_of d ''successful'' = None \<longrightarrow>
            fst (push_file w self filepath s) = Inl (Exn KeyError (repr_str ''successful'') None))
       \<and> (map_of d ''successful'' = Some (PBool True) \<and> map_of d ''upload_id'' = None \<longrightarrow>
            fst (push_file w self filepath s) = Inl (Exn KeyError (repr_str ''upload_id'') None))
       \<and> (map_of d ''successful'' = None
            \<or> map_of d ''successful'' = Some (PBool True) \<and> map_of d ''upload_id'' = None \<longrightarrow>
            (case fst (push_file w self filepath s) of
               Inl e \<Rightarrow> isinstance e KeyError \<and> \<not> isinstance e CommandError
             | Inr upload_id \<Rightarrow> False))"
  using push_file_result [OF assms(1)] by (auto simp add: isinstance_def)

lemma repr_keys:
  "repr_str ''successful'' = CHR 0x27 # ''successful'' @ [CHR 0x27]"
  "repr_str ''upload_id'' = CHR 0x27 # ''upload_id'' @ [CHR 0x27]"
  by code_simp+

theorem push_file_missing_key_witness:
  "fst (push_file_upload
          (demo_storage \<lparr>status_code = 200, json = Inr (PDict [(''upload_id'', PStr ''abc123'')])\<rparr>)
          demo_client demo_path demo_state)
     = Inr (PDict [(''upload_id'', PStr ''abc123'')])
   \<and> map_of [(''upload_id'', PStr ''abc123'')] ''successful'' = None
   \<and> fst (push_file
          (demo_storage \<lparr>status_code = 200, json = Inr (PDict [(''upload_id'', PStr ''abc123'')])\<rparr>)
          demo_client demo_path demo_state)
     = Inl (Exn KeyError (CHR 0x27 # ''successful'' @ [CHR 0x27]) None)
   \<and> fst (push_file_upload
          (demo_storage \<lparr>status_code = 200, json = Inr (PDict [(''successful'', PBool True)])\<rparr>)
          demo_client demo_path demo_state)
     = Inr (PDict [(''successful'', PBool True)])
   \<and> map_of [(''successful'', PBool True)] ''successful'' = Some (PBool True)
   \<and> map_of [(''successful'', PBool True)] ''upload_id'' = None
   \<and> fst (push_file
          (demo_storage \<lparr>status_code = 200, json = Inr (PDict [(''successful'', PBool True)])\<rparr>)
          demo_client demo_path demo_state)
     = Inl (Exn KeyError (CHR 0x27 # ''upload_id'' @ [CHR 0x27]) None)"
proof -
  let ?d1 = "[(''upload_id'', PStr ''abc123'')]"
  let ?d2 = "[(''successful'', PBool True)]"
  have u1: "fst (push_file_upload (demo_storage \<lparr>status_code = 200, json = Inr (PDict ?d1)\<rparr>)
                   demo_client demo_path demo_state) = Inr (PDict ?d1)"
    by (simp add: demo_upload)
  have u2: "fst (push_file_upload (demo_storage \<lparr>status_code = 200, json = Inr (PDict ?d2)\<rparr>)
                   demo_client demo_path demo_state) = Inr (PDict ?d2)"
    by (simp add: demo_upload)
  show ?thesis
    using u1 u2 push_file_missing_key [OF u1] push_file_missing_key [OF u2]
    by (simp add: repr_keys)
qed

section \<open>Properties of \<^verbatim>\<open>request\<close> and \<^verbatim>\<open>request_json\<close>\<close>

text \<open>
  Claim C4. When the request capability of the authenticated session raises a store
  error, \<^verbatim>\<open>Client.request\<close> raises one \<^verbatim>\<open>CommandError\<close> whose text is the text
  of the original error (which it keeps as its cause); an error of any other class
  leaves \<^verbatim>\<open>request\<close> as it was raised.
\<close>

theorem request_translates_store_errors:
  assumes "StoreClient_request w self method url = Inl store_error"
  shows "(isinstance store_error StoreClientError \<longrightarrow>
            request w self method url
              = Inl (Exn CommandError (exn_msg store_error) (Some store_error)))
       \<and> (\<not> isinstance store_error StoreClientError \<longrightarrow>
            request w self method url = Inl store_error)"
  using assms by (simp add: request_def)

theorem request_translates_store_errors_witness:
  "StoreClient_request
     (demo_world\<lparr>StoreClient_request :=
        \<lambda>self method url. Inl (Exn StoreClientError ''Credentials expired'' None)\<rparr>)
     demo_client ''GET'' ''/v1/whoami'' = Inl (Exn StoreClientError ''Credentials expired'' None)
   \<and> isinstance (Exn StoreClientError ''Credentials expired'' None) StoreClientError
   \<and> request
       (demo_world\<lparr>StoreClient_request :=
          \<lambda>self method url. Inl (Exn StoreClientError ''Credentials expired'' None)\<rparr>)
       demo_client ''GET'' ''/v1/whoami''
     = Inl (Exn CommandError ''Credentials expired''
              (Some (Exn StoreClientError ''Credentials expired'' None)))
   \<and> StoreClient_request
       (demo_world\<lparr>StoreClient_request :=
          \<lambda>self method url. Inl (Exn (OtherError ''ValueError'') ''bad url'' None)\<rparr>)
       demo_client ''GET'' ''/v1/whoami'' = Inl (Exn (OtherError ''ValueError'') ''bad url'' None)
   \<and> \<not> isinstance (Exn (OtherError ''ValueError'') ''bad url'' None) StoreClientError
   \<and> request
       (demo_world\<lparr>StoreClient_request :=
          \<lambda>self method url. Inl (Exn (OtherError ''ValueError'') ''bad url'' None)\<rparr>)
       demo_client ''GET'' ''/v1/whoami''
     = Inl (Exn (OtherError ''ValueError'') ''bad url'' None)"
proof -
  let ?w1 = "demo_world\<lparr>StoreClient_request :=
        \<lambda>self method url. Inl (Exn StoreClientError ''Credentials expired'' None)\<rparr>"
  let ?w2 = "demo_world\<lparr>StoreClient_request :=
          \<lambda>self method url. Inl (Exn (OtherError ''ValueError'') ''bad url'' None)\<rparr>"
  have a1: "StoreClient_request ?w1 demo_client ''GET'' ''/v1/whoami''
              = Inl (Exn StoreClientError ''Credentials expired'' None)"
    by simp
  have a2: "StoreClient_request ?w2 demo_client ''GET'' ''/v1/whoami''
              = Inl (Exn (OtherError ''ValueError'') ''bad url'' None)"
    by simp
  show ?thesis
    using a1 a2 request_translates_store_errors [OF a1] request_translates_store_errors [OF a2]
    by (simp add: isinstance_def)
qed

text \<open>
  Claim C3, as amended. The handler of \<^verbatim>\<open>request_json\<close> names one class,
  \<^verbatim>\<open>JSONDecodeError\<close>. When parsing the body of the response fails with an error of
  that class, \<^verbatim>\<open>request_json\<close> fails with a \<^verbatim>\<open>CommandError\<close> whose message
  includes the status code of that response, and the error the caller sees is not the
  \<^verbatim>\<open>JSONDecodeError\<close> (which is kept as the cause). When parsing fails with an error
  of any other class, that error leaves \<^verbatim>\<open>request_json\<close> as it was raised.
\<close>

theorem request_json_parse_failure:
  assumes "request w self method url = Inr response"
    and "json response = Inl json_error"
  shows "(isinstance json_error JSONDecodeError \<longrightarrow>
            request_json w self method url
              = Inl (Exn CommandError
                      (''Could not retrieve json response ('' @ str_int (status_code response)
                         @ '' from request'')
                      (Some json_error))
            \<and> (case request_json w self method url of
                  Inl e \<Rightarrow> isinstance e CommandError \<and> \<not> isinstance e JSONDecodeError
                             \<and> sublist (str_int (status_code response)) (exn_msg e)
                | Inr v \<Rightarrow> False))
       \<and> (\<not> isinstance json_error JSONDecodeError \<longrightarrow>
            request_json w self method url = Inl json_error)"
proof (intro conjI impI)
  let ?msg = "''Could not retrieve json response ('' @ str_int (status_code response)
                @ '' from request''"
  assume j: "isinstance json_error JSONDecodeError"
  with assms show r: "request_json w self method url = Inl (Exn CommandError ?msg (Some json_error))"
    by (simp add: request_json_def)
  have c: "sublist (str_int (status_code response)) ?msg"
    by (rule sublist_appendI)
  from r c show "case request_json w self method url of
                  Inl e \<Rightarrow> isinstance e CommandError \<and> \<not> isinstance e JSONDecodeError
                             \<and> sublist (str_int (status_code response)) (exn_msg e)
                | Inr v \<Rightarrow> False"
    by (simp only: sum.case exn.sel isinstance_def exn_class.distinct simp_thms)
next
  assume "\<not> isinstance json_error JSONDecodeError"
  with assms show "request_json w self method url = Inl json_error"
    by (simp add: request_json_def)
qed

lemma str_int_502: "str_int 502 = ''502''"
  by code_simp

theorem request_json_parse_failure_witness:
  "request demo_world demo_client ''GET'' ''/v1/whoami'' = Inr demo_not_json
   \<and> json demo_not_json = Inl (Exn JSONDecodeError ''Expecting value: line 1 column 1 (char 0)'' None)
   \<and> isinstance (Exn JSONDecodeError ''Expecting value: line 1 column 1 (char 0)'' None) JSONDecodeError
   \<and> status_code demo_not_json = 502
   \<and> request_json demo_world demo_client ''GET'' ''/v1/whoami''
       = Inl (Exn CommandError ''Could not retrieve json response (502 from request''
               (Some (Exn JSONDecodeError ''Expecting value: line 1 column 1 (char 0)'' None)))
   \<and> request
        (demo_world\<lparr>StoreClient_request := \<lambda>self method url.
           Inr \<lparr>status_code = 200,
                json = Inl (Exn (OtherError ''ValueError'')
                              ''Exceeds the limit (4300 digits) for integer string conversion''
                              None)\<rparr>\<rparr>)
        demo_client ''GET'' ''/v1/whoami''
       = Inr \<lparr>status_code = 200,
              json = Inl (Exn (OtherError ''ValueError'')
                            ''Exceeds the limit (4300 digits) for integer string conversion''
                            None)\<rparr>
   \<and> \<not> isinstance (Exn (OtherError ''ValueError'')
                       ''Exceeds the limit (4300 digits) for integer string conversion'' None)
          JSONDecodeError
   \<and> request_json
        (demo_world\<lparr>StoreClient_request := \<lambda>self method url.
           Inr \<lparr>status_code = 200,
                json = Inl (Exn (OtherError ''ValueError'')
                              ''Exceeds the limit (4300 digits) for integer string conversion''
                              None)\<rparr>\<rparr>)
        demo_client ''GET'' ''/v1/whoami''
       = Inl (Exn (OtherError ''ValueError'')
                ''Exceeds the limit (4300 digits) for integer string conversion'' None)"
proof -
  let ?e = "Exn JSONDecodeError ''Expecting value: line 1 column 1 (char 0)'' None"
  let ?v = "Exn (OtherError ''ValueError'')
              ''Exceeds the limit (4300 digits) for integer string conversion'' None"
  let ?r = "\<lparr>status_code = 200, json = Inl ?v\<rparr>"
  let ?w = "demo_world\<lparr>StoreClient_request := \<lambda>self method url. Inr ?r\<rparr>"
  have a: "request demo_world demo_client ''GET'' ''/v1/whoami'' = Inr demo_not_json"
    by (simp add: request_def demo_world_def demo_storage_def)
  have b: "json demo_not_json = Inl ?e"
    by (simp add: demo_not_json_def)
  have c: "isinstance ?e JSONDecodeError"
    by (simp add: isinstance_def)
  have d: "status_code demo_not_json = 502"
    by (simp add: demo_not_json_def)
  have a': "request ?w demo_client ''GET'' ''/v1/whoami'' = Inr ?r"
    by (simp add: request_def)
  have b': "json ?r = Inl ?v"
    by simp
  have c': "\<not> isinstance ?v JSONDecodeError"
    by (simp add: isinstance_def)
  have j: "request_json demo_world demo_client ''GET'' ''/v1/whoami''
       = Inl (Exn CommandError ''Could not retrieve json response (502 from request'' (Some ?e))"
    using request_json_parse_failure [OF a b, THEN conjunct1, THEN mp, OF c, THEN conjunct1]
    by (simp add: d str_int_502)
  have v: "request_json ?w demo_client ''GET'' ''/v1/whoami'' = Inl ?v"
    by (rule request_json_parse_failure [OF a' b', THEN conjunct2, THEN mp, OF c'])
  from a b c d j a' c' v show ?thesis
    by (intro conjI)
qed

text \<open>
  Claim C3 as stated speaks of every body that fails to parse. A body nested too deeply
  for the parser fails with \<^verbatim>\<open>RecursionError\<close>, which the handler does not name: the
  caller gets that error itself, not a \<^verbatim>\<open>CommandError\<close>.
\<close>

theorem request_json_leaks_other_parse_errors_counterexample:
  "request
     (demo_world\<lparr>StoreClient_request := \<lambda>self method url.
        Inr \<lparr>status_code = 200,
             json = Inl (Exn (OtherError ''RecursionError'')
                           ''maximum recursion depth exceeded while decoding a JSON array''
                           None)\<rparr>\<rparr>)
     demo_client ''GET'' ''/v1/whoami''
    = Inr \<lparr>status_code = 200,
           json = Inl (Exn (OtherError ''RecursionError'')
                         ''maximum recursion depth exceeded while decoding a JSON array''
                         None)\<rparr>
   \<and> request_json
     (demo_world\<lparr>StoreClient_request := \<lambda>self method url.
        Inr \<lparr>status_code = 200,
             json = Inl (Exn (OtherError ''RecursionError'')
                           ''maximum recursion depth exceeded while decoding a JSON array''
                           None)\<rparr>\<rparr>)
     demo_client ''GET'' ''/v1/whoami''
    = Inl (Exn (OtherError ''RecursionError'')
             ''maximum recursion depth exceeded while decoding a JSON array'' None)
   \<and> \<not> isinstance
         (Exn (OtherError ''RecursionError'')
            ''maximum recursion depth exceeded while decoding a JSON array'' None)
         CommandError"
  by (simp add: request_json_def request_def isinstance_def)

section \<open>Properties of \<^verbatim>\<open>build_user_agent\<close>\<close>

text \<open>The two loops of the generator and \<^verbatim>\<open>any\<close> decide whether some key of the
  environment begins with one of the two prefixes.\<close>

lemma py_any_iff: "py_any bs \<longleftrightarrow> True \<in> set bs"
  by (induction bs) auto

lemma startswith_prefix: "startswith s p \<longleftrightarrow> prefix p s"
proof
  assume "startswith s p"
  then have "s = p @ drop (length p) s"
    by (metis append_take_drop_id startswith_def)
  then show "prefix p s"
    by (metis prefixI)
next
  assume "prefix p s"
  then show "startswith s p"
    by (auto simp add: startswith_def prefix_def)
qed

lemma testing_env_iff:
  "py_any [startswith key pfx. pfx \<leftarrow> TESTING_ENV_PREFIXES, key \<leftarrow> map fst (environ w)]
     \<longleftrightarrow> (\<exists>key \<in> fst ` set (environ w). prefix ''TRAVIS'' key \<or> prefix ''AUTOPKGTEST_TMP'' key)"
  by (auto simp add: py_any_iff TESTING_ENV_PREFIXES_def startswith_prefix)

text \<open>
  Claim C6. When the environment has a key that begins with one of the recognized
  test-harness prefixes (\<^verbatim>\<open>TRAVIS\<close>, \<^verbatim>\<open>AUTOPKGTEST_TMP\<close>), the user agent has
  the text \<^verbatim>\<open>" (testing) "\<close> between the version and the platform, and so contains
  it; when it has no such key, a single space stands in that position.
\<close>

theorem build_user_agent_testing_marker:
  "((\<exists>key \<in> fst ` set (environ w). prefix ''TRAVIS'' key \<or> prefix ''AUTOPKGTEST_TMP'' key) \<longrightarrow>
      build_user_agent w
        = (''charmcraft/'' @ charmcraft_version w) @ '' (testing) ''
            @ (system (get_os_platform w) @ ''/'' @ release (get_os_platform w)
                 @ '' ('' @ machine (get_os_platform w) @ '')'' @ '' python/'' @ python_version w)
      \<and> sublist '' (testing) '' (build_user_agent w))
   \<and> (\<not> (\<exists>key \<in> fst ` set (environ w). prefix ''TRAVIS'' key \<or> prefix ''AUTOPKGTEST_TMP'' key) \<longrightarrow>
      build_user_agent w
        = (''charmcraft/'' @ charmcraft_version w) @ '' ''
            @ (system (get_os_platform w) @ ''/'' @ release (get_os_platform w)
                 @ '' ('' @ machine (get_os_platform w) @ '')'' @ '' python/'' @ python_version w))"
proof -
  let ?rest = "system (get_os_platform w) @ ''/'' @ release (get_os_platform w)
                 @ '' ('' @ machine (get_os_platform w) @ '')'' @ '' python/'' @ python_version w"
  let ?head = "''charmcraft/'' @ charmcraft_version w"
  have e: "build_user_agent w =
             ?head @ (if (\<exists>key \<in> fst ` set (environ w).
                            prefix ''TRAVIS'' key \<or> prefix ''AUTOPKGTEST_TMP'' key)
                      then '' (testing) '' else '' '') @ ?rest"
    unfolding build_user_agent_def Let_def testing_env_iff by simp
  have c: "sublist '' (testing) '' (?head @ '' (testing) '' @ ?rest)"
    by (rule sublist_appendI)
  show ?thesis
  proof (cases "\<exists>key \<in> fst ` set (environ w).
                   prefix ''TRAVIS'' key \<or> prefix ''AUTOPKGTEST_TMP'' key")
    case True
    with c show ?thesis
      unfolding e by (simp only: if_True simp_thms)
  next
    case False
    then show ?thesis
      unfolding e by (simp only: if_False simp_thms)
  qed
qed

theorem build_user_agent_testing_marker_witness:
  "(\<exists>key \<in> fst ` set (environ demo_world). prefix ''TRAVIS'' key \<or> prefix ''AUTOPKGTEST_TMP'' key)
   \<and> build_user_agent demo_world
       = ''charmcraft/1.5.0 (testing) ubuntu/20.04 (x86_64) python/3.8.10''
   \<and> sublist '' (testing) '' (build_user_agent demo_world)
   \<and> \<not> (\<exists>key \<in> fst ` set (environ (demo_world\<lparr>environ := [(''HOME'', ''/home/dev'')]\<rparr>)).
           prefix ''TRAVIS'' key \<or> prefix ''AUTOPKGTEST_TMP'' key)
   \<and> build_user_agent (demo_world\<lparr>environ := [(''HOME'', ''/home/dev'')]\<rparr>)
       = ''charmcraft/1.5.0 ubuntu/20.04 (x86_64) python/3.8.10''"
proof -
  let ?dev = "demo_world\<lparr>environ := [(''HOME'', ''/home/dev'')]\<rparr>"
  have a: "\<exists>key \<in> fst ` set (environ demo_world).
             prefix ''TRAVIS'' key \<or> prefix ''AUTOPKGTEST_TMP'' key"
    by (simp add: demo_world_def demo_storage_def)
  have b: "\<not> (\<exists>key \<in> fst ` set (environ ?dev).
                prefix ''TRAVIS'' key \<or> prefix ''AUTOPKGTEST_TMP'' key)"
    by simp
  have f: "charmcraft_version demo_world = ''1.5.0''"
    "get_os_platform demo_world = \<lparr>system = ''ubuntu'', release = ''20.04'', machine = ''x86_64''\<rparr>"
    "python_version demo_world = ''3.8.10''"
    by (simp_all add: demo_world_def demo_storage_def)
  have g: "charmcraft_version ?dev = ''1.5.0''"
    "get_os_platform ?dev = \<lparr>system = ''ubuntu'', release = ''20.04'', machine = ''x86_64''\<rparr>"
    "python_version ?dev = ''3.8.10''"
    by (simp_all add: demo_world_def demo_storage_def)
  note ci = build_user_agent_testing_marker [of demo_world, THEN conjunct1, THEN mp, OF a]
  note dev = build_user_agent_testing_marker [of ?dev, THEN conjunct2, THEN mp, OF b]
  have u: "build_user_agent demo_world
             = ''charmcraft/1.5.0 (testing) ubuntu/20.04 (x86_64) python/3.8.10''"
    using ci [THEN conjunct1] unfolding f by simp
  have c: "sublist '' (testing) '' (build_user_agent demo_world)"
    by (rule ci [THEN conjunct2])
  have v: "build_user_agent ?dev = ''charmcraft/1.5.0 ubuntu/20.04 (x86_64) python/3.8.10''"
    using dev unfolding g by simp
  from a b u c v show ?thesis
    by (intro conjI)
qed

section \<open>Properties of the constructor\<close>

text \<open>What \<^verbatim>\<open>rstrip\<close> with one character does: the string is the result followed by
  copies of the character, and the result does not end with it.\<close>

lemma rstrip_single:
  "\<exists>n. s = rstrip s [c] @ replicate n c" "\<not> suffix [c] (rstrip s [c])"
proof -
  let ?P = "\<lambda>x. x \<in> set [c]"
  have "rev s = takeWhile ?P (rev s) @ dropWhile ?P (rev s)"
    by simp
  then have "s = rev (dropWhile ?P (rev s)) @ rev (takeWhile ?P (rev s))"
    by (metis rev_append rev_rev_ident)
  moreover have "rev (takeWhile ?P (rev s)) = replicate (length (takeWhile ?P (rev s))) c"
  proof -
    have "\<forall>x \<in> set (rev (takeWhile ?P (rev s))). x = c"
      by (auto dest: set_takeWhileD)
    then show ?thesis
      by (metis length_rev replicate_eqI)
  qed
  ultimately show "\<exists>n. s = rstrip s [c] @ replicate n c"
    unfolding rstrip_def by metis
  show "\<not> suffix [c] (rstrip s [c])"
  proof
    assume "suffix [c] (rstrip s [c])"
    then obtain zs where z: "rstrip s [c] = zs @ [c]"
      by (auto simp add: suffix_def)
    then have "dropWhile ?P (rev s) = c # rev zs"
      unfolding rstrip_def by (metis rev.simps(2) rev_rev_ident rev_swap)
    then have "dropWhile ?P (rev s) \<noteq> [] \<and> ?P (hd (dropWhile ?P (rev s)))"
      by simp
    then show False
      using hd_dropWhile [of ?P "rev s"] by blast
  qed
qed

text \<open>
  Claim C9. For every pair of URLs given to the constructor, the stored
  \<^verbatim>\<open>storage_base_url\<close> and the base URL handed to the session are the respective
  input with all trailing \<^verbatim>\<open>/\<close> removed: the input is the result followed by
  slashes only, and the result does not end with a slash.
\<close>

theorem Client_init_strips_slashes:
  "(\<exists>n. api_base_url = base_url (Client_init w api_base_url storage_base_url')
                            @ replicate n CHR ''/'')
   \<and> \<not> suffix ''/'' (base_url (Client_init w api_base_url storage_base_url'))
   \<and> (\<exists>n. storage_base_url' = storage_base_url (Client_init w api_base_url storage_base_url')
                            @ replicate n CHR ''/'')
   \<and> \<not> suffix ''/'' (storage_base_url (Client_init w api_base_url storage_base_url'))"
  using rstrip_single [where s = api_base_url and c = "CHR ''/''"]
    rstrip_single [where s = storage_base_url' and c = "CHR ''/''"]
  by (simp add: Client_init_def Let_def)

theorem Client_init_strips_slashes_witness:
  "base_url (Client_init demo_world ''https://api.charmhub.io/'' ''https://storage.snapcraftcontent.com//'')
     = ''https://api.charmhub.io''
   \<and> storage_base_url
        (Client_init demo_world ''https://api.charmhub.io/'' ''https://storage.snapcraftcontent.com//'')
     = ''https://storage.snapcraftcontent.com''
   \<and> (\<exists>n. ''https://api.charmhub.io/'' = ''https://api.charmhub.io'' @ replicate n CHR ''/'')
   \<and> \<not> suffix ''/'' ''https://api.charmhub.io''
   \<and> (\<exists>n. ''https://storage.snapcraftcontent.com//''
             = ''https://storage.snapcraftcontent.com'' @ replicate n CHR ''/'')
   \<and> \<not> suffix ''/'' ''https://storage.snapcraftcontent.com''"
proof -
  have b: "base_url (Client_init demo_world ''https://api.charmhub.io/''
                       ''https://storage.snapcraftcontent.com//'') = ''https://api.charmhub.io''"
    by (simp add: Client_init_def rstrip_def)
  have s: "storage_base_url (Client_init demo_world ''https://api.charmhub.io/''
                       ''https://storage.snapcraftcontent.com//'')
             = ''https://storage.snapcraftcontent.com''"
    by (simp add: Client_init_def rstrip_def)
  note t = Client_init_strips_slashes [of "''https://api.charmhub.io/''" demo_world
        "''https://storage.snapcraftcontent.com//''", unfolded b s]
  from b s t show ?thesis
    by (intro conjI) (rule b, rule s, blast+)
qed

section \<open>Properties of the progress callback\<close>

text \<open>The callback by cases: past the total it prints nothing, on an empty body the
  division raises, otherwise it prints the percentage. It touches standard output only.\<close>

lemma progress_cases:
  "progress m s =
     (if len m < bytes_read m then (Inr (), s)
      else if len m = 0 then (Inl (Exn ZeroDivisionError ''division by zero'' None), s)
      else (Inr (), s\<lparr>stdout := stdout s @ [Uploading (of_nat (100 * bytes_read m) / of_nat (len m))]\<rparr>))"
  by (simp add: progress_def truediv_def)

lemma progress_frame:
  "handles (snd (progress m s)) = handles s"
  "next_fd (snd (progress m s)) = next_fd s"
  "posted (snd (progress m s)) = posted s"
  by (simp_all add: progress_cases)

lemma monitor_read_frame:
  "handles (snd (monitor_read n m s)) = handles s"
  "next_fd (snd (monitor_read n m s)) = next_fd s"
  "posted (snd (monitor_read n m s)) = posted s"
  using progress_frame [of "m\<lparr>bytes_read := bytes_read m + n\<rparr>" s]
  by (auto simp add: monitor_read_def Let_def split: prod.splits sum.splits)

lemma stream_frame:
  "handles (snd (stream ns m s)) = handles s
   \<and> next_fd (snd (stream ns m s)) = next_fd s
   \<and> posted (snd (stream ns m s)) = posted s"
proof (induction ns arbitrary: m s)
  case Nil
  show ?case by simp
next
  case (Cons n ns)
  show ?case
  proof (cases "monitor_read n m s")
    case (Pair r s')
    with monitor_read_frame [of n m s]
    have f: "handles s' = handles s" "next_fd s' = next_fd s" "posted s' = posted s"
      by simp_all
    show ?thesis
    proof (cases r)
      case (Inl e)
      with Pair f show ?thesis by simp
    next
      case (Inr m')
      with Pair f Cons.IH [of m' s'] show ?thesis by simp
    qed
  qed
qed

text \<open>Every value the callback prints is at most 100, for one call and for all the
  reads of an upload.\<close>

lemma progress_stdout:
  "\<exists>out. stdout (snd (progress m s)) = stdout s @ out \<and> (\<forall>p. Uploading p \<in> set out \<longrightarrow> p \<le> 100)"
proof (cases "len m < bytes_read m \<or> len m = 0")
  case True
  then have "stdout (snd (progress m s)) = stdout s @ []"
    by (auto simp add: progress_cases)
  then show ?thesis by fastforce
next
  case False
  then have l: "0 < len m" and b: "bytes_read m \<le> len m"
    by simp_all
  let ?p = "of_nat (100 * bytes_read m) / of_nat (len m) :: rat"
  from b have "(of_nat (100 * bytes_read m) :: rat) \<le> 100 * of_nat (len m)"
    by (metis of_nat_mult of_nat_numeral mult_le_mono2 of_nat_le_iff)
  with l have "?p \<le> 100"
    by (simp add: divide_le_eq)
  moreover from False have "stdout (snd (progress m s)) = stdout s @ [Uploading ?p]"
    by (simp add: progress_cases)
  ultimately show ?thesis by fastforce
qed

lemma monitor_read_stdout:
  "\<exists>out. stdout (snd (monitor_read n m s)) = stdout s @ out
         \<and> (\<forall>p. Uploading p \<in> set out \<longrightarrow> p \<le> 100)"
  using progress_stdout [of "m\<lparr>bytes_read := bytes_read m + n\<rparr>" s]
  by (auto simp add: monitor_read_def Let_def split: prod.splits sum.splits)

lemma stream_stdout:
  "\<exists>out. stdout (snd (stream ns m s)) = stdout s @ out
         \<and> (\<forall>p. Uploading p \<in> set out \<longrightarrow> p \<le> 100)"
proof (induction ns arbitrary: m s)
  case Nil
  have "stdout (snd (stream [] m s)) = stdout s @ []" by simp
  then show ?case by fastforce
next
  case (Cons n ns)
  show ?case
  proof (cases "monitor_read n m s")
    case (Pair r s')
    with monitor_read_stdout [of n m s]
    obtain out1 where o1: "stdout s' = stdout s @ out1" "\<forall>p. Uploading p \<in> set out1 \<longrightarrow> p \<le> 100"
      by auto
    show ?thesis
    proof (cases r)
      case (Inl e)
      with Pair o1 show ?thesis by auto
    next
      case (Inr m')
      from Cons.IH [of m' s']
      obtain out2 where o2: "stdout (snd (stream ns m' s')) = stdout s' @ out2"
        "\<forall>p. Uploading p \<in> set out2 \<longrightarrow> p \<le> 100"
        by auto
      from Pair Inr o1 o2 have "stdout (snd (stream (n # ns) m s)) = stdout s @ (out1 @ out2)"
        by simp
      moreover from o1 o2 have "\<forall>p. Uploading p \<in> set (out1 @ out2) \<longrightarrow> p \<le> 100"
        by auto
      ultimately show ?thesis by blast
    qed
  qed
qed

text \<open>
  The callback is a closure of \<^verbatim>\<open>push_file\<close> and only ever runs on the monitor built
  there, whose length is that of a whole multipart body, boundaries and part headers
  included: it is positive also for an empty file. The encoder is a collaborator, so this
  fact is the premise \<open>0 < len m\<close>; without it the division would raise.
\<close>

lemma progress_empty_body:
  "len m = 0 \<Longrightarrow> bytes_read m = 0 \<Longrightarrow>
     progress m s = (Inl (Exn ZeroDivisionError ''division by zero'' None), s)"
  by (simp add: progress_cases)

text \<open>
  Claim C5. In the progress callback of \<^verbatim>\<open>push_file\<close>, on the monitor of a
  multipart body (whose length is positive): when \<^verbatim>\<open>bytes_read\<close> equals the total
  length the computed progress \<^verbatim>\<open>100 * bytes_read / len\<close> is exactly 100 and is
  printed; when \<^verbatim>\<open>bytes_read\<close> is past the total length nothing is printed; and
  over all the chunks of an upload no printed value is above 100.
\<close>

theorem progress_bounded:
  "(0 < len m \<and> bytes_read m = len m \<longrightarrow>
      progress m s = (Inr (), s\<lparr>stdout := stdout s @ [Uploading 100]\<rparr>))
   \<and> (len m < bytes_read m \<longrightarrow> progress m s = (Inr (), s))
   \<and> (\<exists>out. stdout (snd (stream chunks m s)) = stdout s @ out
             \<and> (\<forall>p. Uploading p \<in> set out \<longrightarrow> p \<le> 100))"
proof (intro conjI impI)
  assume "0 < len m \<and> bytes_read m = len m"
  then show "progress m s = (Inr (), s\<lparr>stdout := stdout s @ [Uploading 100]\<rparr>)"
    by (simp add: progress_cases)
next
  assume "len m < bytes_read m"
  then show "progress m s = (Inr (), s)"
    by (simp add: progress_cases)
next
  show "\<exists>out. stdout (snd (stream chunks m s)) = stdout s @ out
             \<and> (\<forall>p. Uploading p \<in> set out \<longrightarrow> p \<le> 100)"
    by (rule stream_stdout)
qed


theorem progress_bounded_witness:
  "0 < len (MultipartEncoderMonitor (MultipartEncoder demo_world [])\<lparr>bytes_read := 300\<rparr>)
   \<and> bytes_read (MultipartEncoderMonitor (MultipartEncoder demo_world [])\<lparr>bytes_read := 300\<rparr>)
       = len (MultipartEncoderMonitor (MultipartEncoder demo_world [])\<lparr>bytes_read := 300\<rparr>)
   \<and> progress (MultipartEncoderMonitor (MultipartEncoder demo_world [])\<lparr>bytes_read := 300\<rparr>) demo_state
       = (Inr (), demo_state\<lparr>stdout := [Uploading 100]\<rparr>)
   \<and> len (MultipartEncoderMonitor (MultipartEncoder demo_world [])\<lparr>bytes_read := 301\<rparr>)
       < bytes_read (MultipartEncoderMonitor (MultipartEncoder demo_world [])\<lparr>bytes_read := 301\<rparr>)
   \<and> progress (MultipartEncoderMonitor (MultipartEncoder demo_world [])\<lparr>bytes_read := 301\<rparr>) demo_state
       = (Inr (), demo_state)
   \<and> (\<exists>out. stdout (snd (stream [200, 100, 1]
                  (MultipartEncoderMonitor (MultipartEncoder demo_world [])) demo_state)) = out
          \<and> (\<forall>p. Uploading p \<in> set out \<longrightarrow> p \<le> 100))"
proof -
  let ?m = "MultipartEncoderMonitor (MultipartEncoder demo_world [])"
  have l: "len (?m\<lparr>bytes_read := k\<rparr>) = 300" "bytes_read (?m\<lparr>bytes_read := k\<rparr>) = k" for k
    by (simp_all add: MultipartEncoderMonitor_def demo_world_def demo_storage_def)
  have e: "stdout demo_state = []"
    by (simp add: demo_state_def)
  note t1 = progress_bounded [of "?m\<lparr>bytes_read := 300\<rparr>" demo_state "[]"]
  note t2 = progress_bounded [of "?m\<lparr>bytes_read := 301\<rparr>" demo_state "[]"]
  note t3 = progress_bounded [of ?m demo_state "[200, 100, 1]"]
  have a: "progress (?m\<lparr>bytes_read := 300\<rparr>) demo_state
             = (Inr (), demo_state\<lparr>stdout := [Uploading 100]\<rparr>)"
    using t1 [THEN conjunct1] by (simp add: l e)
  have b: "progress (?m\<lparr>bytes_read := 301\<rparr>) demo_state = (Inr (), demo_state)"
    using t2 [THEN conjunct2, THEN conjunct1] by (simp add: l)
  have c: "\<exists>out. stdout (snd (stream [200, 100, 1] ?m demo_state)) = out
                 \<and> (\<forall>p. Uploading p \<in> set out \<longrightarrow> p \<le> 100)"
    using t3 [THEN conjunct2, THEN conjunct2] by (auto simp add: e)
  from a b c show ?thesis
    by (simp add: l)
qed

section \<open>Properties of \<^verbatim>\<open>push_file\<close>: the file handle and the request\<close>

lemma storage_push_frame:
  "handles (snd (storage_push w m u s)) = handles s"
  "next_fd (snd (storage_push w m u s)) = next_fd s"
proof -
  have "handles (snd (storage_push w m u s)) = handles s
        \<and> next_fd (snd (storage_push w m u s)) = next_fd s"
  proof (cases "HTTPClient_post w
      \<lparr>req_method = ''POST'', req_url = u @ ''/unscanned-upload/'',
         req_headers = [(''Content-Type'', content_type m), (''Accept'', ''application/json'')],
         req_user_agent = build_user_agent w, req_data = m\<rparr>")
    case (Pair chunks outcome)
    let ?s1 = "s\<lparr>posted := posted s @
      [\<lparr>req_method = ''POST'', req_url = u @ ''/unscanned-upload/'',
         req_headers = [(''Content-Type'', content_type m), (''Accept'', ''application/json'')],
         req_user_agent = build_user_agent w, req_data = m\<rparr>]\<rparr>"
    from stream_frame [of chunks m ?s1]
    have "handles (snd (stream chunks m ?s1)) = handles s"
      "next_fd (snd (stream chunks m ?s1)) = next_fd s"
      by simp_all
    with Pair show ?thesis
      by (cases "stream chunks m ?s1")
        (auto simp add: storage_push_def Let_def split: sum.splits)
  qed
  then show "handles (snd (storage_push w m u s)) = handles s"
    "next_fd (snd (storage_push w m u s)) = next_fd s"
    by simp_all
qed

lemma with_open_handles:
  assumes "\<And>fh s1. handles (snd (body fh s1)) = handles s1"
  shows "handles (snd (with_open w filepath body s)) =
           (case path_open w filepath of
              Inl e \<Rightarrow> handles s
            | Inr _ \<Rightarrow> (handles s)(next_fd s \<mapsto> Closed))"
proof (cases "path_open w filepath")
  case (Inl e)
  then show ?thesis by (simp add: with_open_def)
next
  case (Inr u)
  let ?s1 = "s\<lparr>handles := (handles s)(next_fd s \<mapsto> Open), next_fd := next_fd s + 1\<rparr>"
  from assms [of "next_fd s" ?s1]
  have "handles (snd (body (next_fd s) ?s1)) = (handles s)(next_fd s \<mapsto> Open)"
    by simp
  with Inr show ?thesis
    by (cases "body (next_fd s) ?s1") (simp add: with_open_def Let_def)
qed

lemma push_file_upload_handles:
  "handles (snd (push_file_upload w self filepath s)) =
     (case path_open w filepath of
        Inl e \<Rightarrow> handles s
      | Inr _ \<Rightarrow> (handles s)(next_fd s \<mapsto> Closed))"
  unfolding push_file_upload_def
  by (rule with_open_handles) (simp add: Let_def storage_push_frame)

lemma push_file_snd:
  "handles (snd (push_file w self filepath s))
     = handles (snd (push_file_upload w self filepath
         (logger_debug (''Starting to push '' @ repr_str (path_str filepath)) s)))"
  "posted (snd (push_file w self filepath s))
     = posted (snd (push_file_upload w self filepath
         (logger_debug (''Starting to push '' @ repr_str (path_str filepath)) s)))"
  by (cases "push_file_upload w self filepath
         (logger_debug (''Starting to push '' @ repr_str (path_str filepath)) s)";
      simp add: push_file_def Let_def logger_debug_def split: sum.splits)+

text \<open>
  Claim C7. On every exit path of \<^verbatim>\<open>push_file\<close> the handle it opened on
  \<^verbatim>\<open>filepath\<close> is closed when \<^verbatim>\<open>push_file\<close> returns or raises: whatever the
  collaborators do, the handle table afterwards is the one before with the new
  descriptor closed, and is unchanged when the open itself failed. The runs below are a
  successful upload, a transfer that raises while streaming, and an open that fails.
\<close>

theorem push_file_closes_handle:
  "handles (snd (push_file w self filepath s)) =
     (case path_open w filepath of
        Inl e \<Rightarrow> handles s
      | Inr _ \<Rightarrow> (handles s)(next_fd s \<mapsto> Closed))"
  by (simp add: push_file_snd push_file_upload_handles logger_debug_def split: sum.splits)


theorem push_file_closes_handle_witness:
  "handles (snd (push_file demo_world demo_client demo_path demo_state)) = [3 \<mapsto> Closed]
   \<and> handles (snd (push_file
         (demo_world\<lparr>HTTPClient_post :=
            \<lambda>req. ([200], Inl (Exn (OtherError ''NetworkError'') ''connection reset'' None))\<rparr>)
         demo_client demo_path demo_state)) = [3 \<mapsto> Closed]
   \<and> handles (snd (push_file
         (demo_world\<lparr>path_open := \<lambda>p. Inl (Exn OSError ''No such file or directory'' None)\<rparr>)
         demo_client demo_path demo_state)) = Map.empty"
  using push_file_closes_handle [of demo_world demo_client demo_path demo_state]
    push_file_closes_handle [of "demo_world\<lparr>HTTPClient_post :=
            \<lambda>req. ([200], Inl (Exn (OtherError ''NetworkError'') ''connection reset'' None))\<rparr>"
        demo_client demo_path demo_state]
    push_file_closes_handle [of "demo_world\<lparr>path_open :=
            \<lambda>p. Inl (Exn OSError ''No such file or directory'' None)\<rparr>"
        demo_client demo_path demo_state]
  by (simp add: demo_world_def demo_storage_def demo_state_def)

text \<open>On a body of positive length the callback never raises, so the reads of an upload
  all complete; \<^verbatim>\<open>_storage_push\<close> sends exactly one request and yields the parsed
  body of the response.\<close>

lemma monitor_read_ok:
  assumes "0 < len m"
  shows "\<exists>m'. fst (monitor_read n m s) = Inr m' \<and> len m' = len m"
  using assms
  by (auto simp add: monitor_read_def progress_cases Let_def)

lemma stream_ok:
  "0 < len m \<Longrightarrow> \<exists>m'. fst (stream ns m s) = Inr m'"
proof (induction ns arbitrary: m s)
  case Nil
  show ?case by simp
next
  case (Cons n ns)
  from monitor_read_ok [OF Cons.prems, of n s]
  obtain m' where m': "fst (monitor_read n m s) = Inr m'" "len m' = len m"
    by blast
  then obtain s' where "monitor_read n m s = (Inr m', s')"
    by (cases "monitor_read n m s") simp
  moreover from m' Cons.prems have "0 < len m'"
    by simp
  ultimately show ?case
    using Cons.IH [of m' s'] by simp
qed

lemma storage_push_posted:
  "posted (snd (storage_push w m u s)) = posted s @
     [\<lparr>req_method = ''POST'', req_url = u @ ''/unscanned-upload/'',
       req_headers = [(''Content-Type'', enc_content_type (mon_encoder m)),
                      (''Accept'', ''application/json'')],
       req_user_agent = build_user_agent w, req_data = m\<rparr>]"
proof -
  let ?req = "\<lparr>req_method = ''POST'', req_url = u @ ''/unscanned-upload/'',
       req_headers = [(''Content-Type'', content_type m), (''Accept'', ''application/json'')],
       req_user_agent = build_user_agent w, req_data = m\<rparr>"
  let ?s1 = "s\<lparr>posted := posted s @ [?req]\<rparr>"
  obtain chunks outcome where p: "HTTPClient_post w ?req = (chunks, outcome)"
    by (cases "HTTPClient_post w ?req")
  from stream_frame [of chunks m ?s1]
  have "posted (snd (stream chunks m ?s1)) = posted s @ [?req]"
    by simp
  with p have "posted (snd (storage_push w m u s)) = posted s @ [?req]"
    by (cases "stream chunks m ?s1")
      (auto simp add: storage_push_def Let_def split: sum.splits)
  then show ?thesis
    by (simp add: content_type_def)
qed

lemma storage_push_json:
  assumes "0 < len m"
    and "HTTPClient_post w
          \<lparr>req_method = ''POST'', req_url = u @ ''/unscanned-upload/'',
           req_headers = [(''Content-Type'', enc_content_type (mon_encoder m)),
                          (''Accept'', ''application/json'')],
           req_user_agent = build_user_agent w, req_data = m\<rparr> = (chunks, Inr r)"
  shows "fst (storage_push w m u s) = json r"
proof -
  let ?req = "\<lparr>req_method = ''POST'', req_url = u @ ''/unscanned-upload/'',
       req_headers = [(''Content-Type'', content_type m), (''Accept'', ''application/json'')],
       req_user_agent = build_user_agent w, req_data = m\<rparr>"
  let ?s1 = "s\<lparr>posted := posted s @ [?req]\<rparr>"
  from assms(2) have p: "HTTPClient_post w ?req = (chunks, Inr r)"
    by (simp add: content_type_def)
  from stream_ok [OF assms(1), of chunks ?s1]
  obtain m' where "fst (stream chunks m ?s1) = Inr m'"
    by blast
  then obtain s2 where "stream chunks m ?s1 = (Inr m', s2)"
    by (cases "stream chunks m ?s1") simp
  with p show ?thesis
    by (simp add: storage_push_def Let_def)
qed

lemma with_open_posted:
  "posted (snd (with_open w filepath body s)) =
     (case path_open w filepath of
        Inl e \<Rightarrow> posted s
      | Inr _ \<Rightarrow> posted (snd (body (next_fd s)
          (s\<lparr>handles := (handles s)(next_fd s \<mapsto> Open), next_fd := next_fd s + 1\<rparr>))))"
  by (simp add: with_open_def Let_def split: sum.splits prod.splits)

text \<open>
  Claim C8. Once the file is open, \<^verbatim>\<open>push_file\<close> sends exactly one request: a
  \<^verbatim>\<open>POST\<close> of the monitored multipart body to
  \<^verbatim>\<open>storage_base_url + "/unscanned-upload/"\<close>, with \<^verbatim>\<open>Content-Type\<close> the content
  type of the encoder and \<^verbatim>\<open>Accept: application/json\<close>, under the user agent of
  \<^verbatim>\<open>build_user_agent\<close>; and what it then works on is the body of the response
  parsed as JSON.
\<close>

theorem push_file_posts_once:
  assumes "path_open w filepath = Inr ()"
  shows "let encoder = MultipartEncoder w
                         [\<lparr>field_name = ''binary'', file_name = path_name filepath,
                            file_handle = next_fd s,
                            field_content_type = ''application/octet-stream''\<rparr>];
             req = \<lparr>req_method = ''POST'',
                    req_url = storage_base_url self @ ''/unscanned-upload/'',
                    req_headers = [(''Content-Type'', enc_content_type encoder),
                                   (''Accept'', ''application/json'')],
                    req_user_agent = build_user_agent w,
                    req_data = MultipartEncoderMonitor encoder\<rparr>
         in posted (snd (push_file w self filepath s)) = posted s @ [req]
            \<and> (\<forall>chunks r. 0 < enc_len encoder \<and> HTTPClient_post w req = (chunks, Inr r)
                   \<longrightarrow> fst (push_file_upload w self filepath s) = json r)"
proof -
  let ?enc = "MultipartEncoder w
                [\<lparr>field_name = ''binary'', file_name = path_name filepath,
                   file_handle = next_fd s, field_content_type = ''application/octet-stream''\<rparr>]"
  let ?m = "MultipartEncoderMonitor ?enc"
  let ?req = "\<lparr>req_method = ''POST'',
                 req_url = storage_base_url self @ ''/unscanned-upload/'',
                 req_headers = [(''Content-Type'', enc_content_type ?enc),
                                (''Accept'', ''application/json'')],
                 req_user_agent = build_user_agent w,
                 req_data = ?m\<rparr>"
  have m: "mon_encoder ?m = ?enc" "len ?m = enc_len ?enc"
    by (simp_all add: MultipartEncoderMonitor_def)
  have a: "posted (snd (push_file w self filepath s)) = posted s @ [?req]"
    using assms storage_push_posted [of w ?m "storage_base_url self"]
    by (simp add: push_file_snd push_file_upload_def with_open_posted Let_def m logger_debug_def)
  have b: "fst (push_file_upload w self filepath s) = json r"
    if "0 < enc_len ?enc" and "HTTPClient_post w ?req = (chunks, Inr r)" for chunks r
    using assms that storage_push_json [of ?m w "storage_base_url self" chunks r]
    by (simp add: push_file_upload_def with_open_fst Let_def m)
  from a b show ?thesis
    unfolding Let_def by blast
qed

lemma demo_facts:
  "storage_base_url demo_client = ''https://storage.snapcraftcontent.com''"
  "build_user_agent demo_world = ''charmcraft/1.5.0 (testing) ubuntu/20.04 (x86_64) python/3.8.10''"
  "path_open demo_world demo_path = Inr ()"
  "next_fd demo_state = 3"
  "posted demo_state = []"
  "path_name demo_path = ''my.charm''"
  "MultipartEncoder demo_world fs
     = \<lparr>enc_fields = fs, enc_content_type = ''multipart/form-data; boundary=b0'',
        enc_len = 300\<rparr>"
  "HTTPClient_post demo_world req = ([200, 100], Inr demo_response)"
  by (simp_all add: demo_client_def Client_init_def rstrip_def build_user_agent_def
      demo_world_def demo_storage_def TESTING_ENV_PREFIXES_def startswith_def
      demo_state_def demo_path_def)

theorem push_file_posts_once_witness:
  "path_open demo_world demo_path = Inr ()
   \<and> posted (snd (push_file demo_world demo_client demo_path demo_state))
       = [\<lparr>req_method = ''POST'',
           req_url = ''https://storage.snapcraftcontent.com/unscanned-upload/'',
           req_headers = [(''Content-Type'', ''multipart/form-data; boundary=b0''),
                          (''Accept'', ''application/json'')],
           req_user_agent = ''charmcraft/1.5.0 (testing) ubuntu/20.04 (x86_64) python/3.8.10'',
           req_data =
             \<lparr>mon_encoder =
                \<lparr>enc_fields = [\<lparr>field_name = ''binary'', file_name = ''my.charm'',
                                 file_handle = 3,
                                 field_content_type = ''application/octet-stream''\<rparr>],
                 enc_content_type = ''multipart/form-data; boundary=b0'',
                 enc_len = 300\<rparr>,
              bytes_read = 0, len = 300\<rparr>\<rparr>]
   \<and> fst (push_file_upload demo_world demo_client demo_path demo_state) = json demo_response"
proof -
  note t = push_file_posts_once [OF demo_facts(3), where self = demo_client and s = demo_state,
      unfolded Let_def demo_facts MultipartEncoderMonitor_def]
  have a: "posted (snd (push_file demo_world demo_client demo_path demo_state))
       = [\<lparr>req_method = ''POST'',
           req_url = ''https://storage.snapcraftcontent.com/unscanned-upload/'',
           req_headers = [(''Content-Type'', ''multipart/form-data; boundary=b0''),
                          (''Accept'', ''application/json'')],
           req_user_agent = ''charmcraft/1.5.0 (testing) ubuntu/20.04 (x86_64) python/3.8.10'',
           req_data =
             \<lparr>mon_encoder =
                \<lparr>enc_fields = [\<lparr>field_name = ''binary'', file_name = ''my.charm'',
                                 file_handle = 3,
                                 field_content_type = ''application/octet-stream''\<rparr>],
                 enc_content_type = ''multipart/form-data; boundary=b0'',
                 enc_len = 300\<rparr>,
              bytes_read = 0, len = 300\<rparr>\<rparr>]"
    using t [THEN conjunct1] by simp
  have b: "fst (push_file_upload demo_world demo_client demo_path demo_state) = json demo_response"
    using t [THEN conjunct2, THEN spec, THEN spec, of "[200, 100]" demo_response] by simp
  from a b demo_facts(3) show ?thesis
    by (intro conjI)
qed

end
